theory Spec2Isabelle
  imports Main
begin

section \<open>Errors\<close>

text \<open>
  Every \<^verbatim>\<open>throw\<close> of the connectors, and the runtime's own failure when a property
  is read from \<^verbatim>\<open>undefined\<close> or \<^verbatim>\<open>null\<close>, is a value of this type; a function
  that may throw returns \<open>error + 'a\<close> with \<open>Inl\<close> the error.
  \<^item> \<open>TypeError\<close>: a property read or a method call on \<^verbatim>\<open>undefined\<close> or \<^verbatim>\<open>null\<close>;
  \<^item> \<open>OptionError\<close>: \<^verbatim>\<open>new Error('option.start should be > to option.end')\<close>;
  \<^item> \<open>UsageError\<close>: \<^verbatim>\<open>new Error(usage)\<close>.
\<close>

datatype error = TypeError | OptionError | UsageError

section \<open>The search state\<close>

text \<open>
  Numbers are modelled as integers: the connectors only compare them for equality
  and order. A numeric refinement is an operator (\<^verbatim>\<open>=\<close>, \<^verbatim>\<open>>=\<close> or \<^verbatim>\<open><=\<close>)
  applied to a number; the object returned by \<^verbatim>\<open>getNumericRefinements\<close> maps an
  operator to its values, and an operator without values is not a key of that object.
\<close>

datatype operator = Eq | Ge | Le

type_synonym numeric_refinements = "operator \<rightharpoonup> int set"

text \<open>One entry of \<^verbatim>\<open>state.hierarchicalFacets\<close>, as \<^verbatim>\<open>getConfiguration\<close> builds it.\<close>

record hierarchical_facet =
  hf_name :: string
  hf_attributes :: "string list"
  hf_separator :: string
  hf_rootPath :: "string option"

text \<open>
  The state snapshot. \<open>hierarchicalFacets\<close> is \<open>None\<close> when the property is
  missing from the state.
\<close>

record search_state =
  numericRefinements :: "string \<Rightarrow> numeric_refinements"
  page :: nat
  hierarchicalFacets :: "hierarchical_facet list option"

text \<open>
  Modelled from the spec: the methods of the search state, which belong to the search
  helper and are not part of the connectors' sources. The spec gives
  \<^verbatim>\<open>getNumericRefinements(attributeName) -> mapping operator -> set of numbers\<close> and
  \<^verbatim>\<open>addNumericRefinement / removeNumericRefinement / clearRefinements(attributeName)
  -> new state\<close>: refinements are held in a set per operator, keyed by attribute
  name, and every method returns a new snapshot.
\<close>

definition getNumericRefinements :: "search_state \<Rightarrow> string \<Rightarrow> numeric_refinements" where
  "getNumericRefinements state attributeName = numericRefinements state attributeName"

text \<open>
  Modelled from the spec: \<^verbatim>\<open>clearRefinements(attributeName)\<close> of the search helper
  clears all refinements for the attribute.
\<close>

definition clearRefinements :: "search_state \<Rightarrow> string \<Rightarrow> search_state" where
  "clearRefinements state attributeName =
     state\<lparr>numericRefinements := (numericRefinements state)(attributeName := Map.empty)\<rparr>"

text \<open>
  Modelled from the spec: \<^verbatim>\<open>addNumericRefinement(attributeName, operator, value)\<close>
  of the search helper puts the value into the operator's set; adding a value that is
  present gives the same state.
\<close>

definition addNumericRefinement :: "search_state \<Rightarrow> string \<Rightarrow> operator \<Rightarrow> int \<Rightarrow> search_state" where
  "addNumericRefinement state attributeName operator v =
     (let refs = numericRefinements state attributeName;
          vs = (case refs operator of None \<Rightarrow> {} | Some s \<Rightarrow> s)
      in state\<lparr>numericRefinements :=
           (numericRefinements state)(attributeName := refs(operator \<mapsto> insert v vs))\<rparr>)"

text \<open>
  Modelled from the spec: \<^verbatim>\<open>removeNumericRefinement(attributeName, operator, value)\<close>
  of the search helper takes the value out of the operator's set; removing a value
  that is absent gives the same state, and an operator whose last value is removed
  is no longer a key.
\<close>

definition removeNumericRefinement :: "search_state \<Rightarrow> string \<Rightarrow> operator \<Rightarrow> int \<Rightarrow> search_state" where
  "removeNumericRefinement state attributeName operator v =
     (let refs = numericRefinements state attributeName
      in case refs operator of
           None \<Rightarrow> state
         | Some s \<Rightarrow>
             if v \<notin> s then state
             else if s - {v} = {}
               then state\<lparr>numericRefinements :=
                      (numericRefinements state)(attributeName := refs(operator := None))\<rparr>
               else state\<lparr>numericRefinements :=
                      (numericRefinements state)(attributeName := refs(operator \<mapsto> s - {v}))\<rparr>)"

section \<open>The numeric refinement list connector\<close>

text \<open>An option of the catalog: \<^verbatim>\<open>{ name, start?, end? }\<close>.\<close>

record num_option =
  opt_name :: string
  opt_start :: "int option"
  opt_end :: "int option"

text \<open>
  \<^verbatim>\<open>hasNumericRefinement(currentRefinements, operator, value)\<close>: the operator is a
  key of the object and its values include the value.
\<close>

definition hasNumericRefinement :: "numeric_refinements \<Rightarrow> operator \<Rightarrow> int \<Rightarrow> bool" where
  "hasNumericRefinement currentRefinements operator v =
     (let hasOperatorRefinements = (currentRefinements operator \<noteq> None);
          includesValue = (case currentRefinements operator of None \<Rightarrow> False | Some s \<Rightarrow> v \<in> s)
      in hasOperatorRefinements \<and> includesValue)"

text \<open>\<^verbatim>\<open>Object.keys(currentRefinements)\<close>.\<close>

definition object_keys :: "numeric_refinements \<Rightarrow> operator list" where
  "object_keys currentRefinements = filter (\<lambda>operator. currentRefinements operator \<noteq> None) [Eq, Ge, Le]"

text \<open>
  \<^verbatim>\<open>isRefined(state, attributeName, option)\<close>. The source's last statement,
  \<^verbatim>\<open>return undefined\<close>, is the final \<open>False\<close> (\<^verbatim>\<open>undefined\<close> is falsy where
  the result is used); no option reaches it.
\<close>

definition isRefined :: "search_state \<Rightarrow> string \<Rightarrow> num_option \<Rightarrow> bool" where
  "isRefined state attributeName option =
     (let currentRefinements = getNumericRefinements state attributeName
      in if opt_start option \<noteq> None \<and> opt_end option \<noteq> None \<and> opt_start option = opt_end option
           then hasNumericRefinement currentRefinements Eq (the (opt_start option))
         else if opt_start option \<noteq> None
           then hasNumericRefinement currentRefinements Ge (the (opt_start option))
         else if opt_end option \<noteq> None
           then hasNumericRefinement currentRefinements Le (the (opt_end option))
         else if opt_start option = None \<and> opt_end option = None
           then length (object_keys currentRefinements) = 0
         else False)"

text \<open>
  \<^verbatim>\<open>refine(state, attributeName, options, facetValue)\<close>.
  \<^verbatim>\<open>find(options, {name: facetValue})\<close> is the first option of that name, or
  \<^verbatim>\<open>undefined\<close>; reading \<^verbatim>\<open>refinedOption.start\<close> then throws. The toggles
  test \<open>currentRefinements\<close>, read from the incoming state before any clearing.
\<close>

definition refine :: "search_state \<Rightarrow> string \<Rightarrow> num_option list \<Rightarrow> string \<Rightarrow> error + search_state" where
  "refine state attributeName options facetValue =
     (case List.find (\<lambda>option. opt_name option = facetValue) options of
        None \<Rightarrow> Inl TypeError
      | Some refinedOption \<Rightarrow>
          let currentRefinements = getNumericRefinements state attributeName
          in if opt_start refinedOption = None \<and> opt_end refinedOption = None
               then Inr (clearRefinements state attributeName)
             else
               let resolvedState =
                     (if \<not> isRefined state attributeName refinedOption
                        then clearRefinements state attributeName else state)
               in if opt_start refinedOption \<noteq> None \<and> opt_end refinedOption \<noteq> None
                     \<and> the (opt_start refinedOption) > the (opt_end refinedOption)
                    then Inl OptionError
                  else if opt_start refinedOption \<noteq> None \<and> opt_end refinedOption \<noteq> None
                     \<and> opt_start refinedOption = opt_end refinedOption
                    then Inr (if hasNumericRefinement currentRefinements Eq (the (opt_start refinedOption))
                                then removeNumericRefinement resolvedState attributeName Eq (the (opt_start refinedOption))
                                else addNumericRefinement resolvedState attributeName Eq (the (opt_start refinedOption)))
                  else
                    let resolvedState =
                          (if opt_start refinedOption \<noteq> None
                             then (if hasNumericRefinement currentRefinements Ge (the (opt_start refinedOption))
                                     then removeNumericRefinement resolvedState attributeName Ge (the (opt_start refinedOption))
                                     else addNumericRefinement resolvedState attributeName Ge (the (opt_start refinedOption)))
                             else resolvedState);
                        resolvedState =
                          (if opt_end refinedOption \<noteq> None
                             then (if hasNumericRefinement currentRefinements Le (the (opt_end refinedOption))
                                     then removeNumericRefinement resolvedState attributeName Le (the (opt_end refinedOption))
                                     else addNumericRefinement resolvedState attributeName Le (the (opt_end refinedOption)))
                             else resolvedState)
                    in Inr resolvedState)"

text \<open>
  The two calls of a double toggle: the second \<open>refine\<close> runs on the state the
  first returned, with the same attribute, catalog and option name.
\<close>

definition refine_twice :: "search_state \<Rightarrow> string \<Rightarrow> num_option list \<Rightarrow> string \<Rightarrow> error + search_state" where
  "refine_twice state attributeName options facetValue =
     (case refine state attributeName options facetValue of
        Inl e \<Rightarrow> Inl e
      | Inr state' \<Rightarrow> refine state' attributeName options facetValue)"

text \<open>
  The constraints an option stands for, in the words of the specification: an option
  with equal bounds is the refinement \<open>= v\<close>; otherwise a start bound is the
  refinement \<open>>= start\<close> and an end bound is the refinement \<open><= end\<close>; the
  option without bounds has none.
\<close>

definition option_constraints :: "num_option \<Rightarrow> (operator \<times> int) set" where
  "option_constraints option =
     (if opt_start option \<noteq> None \<and> opt_end option \<noteq> None \<and> opt_start option = opt_end option
        then {(Eq, the (opt_start option))}
      else (case opt_start option of None \<Rightarrow> {} | Some s \<Rightarrow> {(Ge, s)})
         \<union> (case opt_end option of None \<Rightarrow> {} | Some e \<Rightarrow> {(Le, e)}))"

text \<open>
  The result set of a search, as far as the connectors read it:
  \<^verbatim>\<open>results.nbHits\<close>, \<^verbatim>\<open>results.nbPages\<close> and
  \<^verbatim>\<open>results.getFacetValues(name)\<close>.
\<close>

datatype facet_value =
  FacetValue (fv_name: string) (fv_path: string) (fv_isRefined: bool)
    (fv_data: "facet_value list option")

record search_results =
  res_nbHits :: nat
  res_nbPages :: nat
  res_getFacetValues :: "string \<Rightarrow> facet_value"

text \<open>
  A call of the render callback is the pair of its payload and its
  \<^verbatim>\<open>isFirstRendering\<close> argument; \<open>init\<close> and \<open>render\<close> return the list of the
  calls they make. The payload's closures (\<^verbatim>\<open>createURL\<close>, \<^verbatim>\<open>refine\<close>,
  \<^verbatim>\<open>setPage\<close>, \<^verbatim>\<open>toggleRefinement\<close>) and the handles passed through
  (\<^verbatim>\<open>instantSearchInstance\<close>, \<^verbatim>\<open>widgetParams\<close>) are left out of the payload
  records.
\<close>

record rendered_option = num_option +
  ro_isRefined :: bool
  ro_attributeName :: string

record numeric_payload =
  facetValues :: "rendered_option list"
  hasNoResults :: bool

definition render_option :: "search_state \<Rightarrow> string \<Rightarrow> num_option \<Rightarrow> rendered_option" where
  "render_option state attributeName facetValue =
     \<lparr>opt_name = opt_name facetValue, opt_start = opt_start facetValue, opt_end = opt_end facetValue,
      ro_isRefined = isRefined state attributeName facetValue, ro_attributeName = attributeName\<rparr>"

definition connectNumericRefinementList_init ::
  "string \<Rightarrow> num_option list \<Rightarrow> search_state \<Rightarrow> (numeric_payload \<times> bool) list" where
  "connectNumericRefinementList_init attributeName options state =
     [(\<lparr>facetValues = map (render_option state attributeName) options,
        hasNoResults = True\<rparr>, True)]"

definition connectNumericRefinementList_render ::
  "string \<Rightarrow> num_option list \<Rightarrow> search_state \<times> search_results
     \<Rightarrow> error + (numeric_payload \<times> bool) list" where
  "connectNumericRefinementList_render attributeName options context =
     (case context of (state, results) \<Rightarrow>
        Inr [(\<lparr>facetValues = map (render_option state attributeName) options,
                hasNoResults = (res_nbHits results = 0)\<rparr>, False)])"

section \<open>The pagination connector\<close>

record pagination_payload =
  currentPage :: nat
  nbHits :: nat
  nbPages :: nat

text \<open>\<^verbatim>\<open>currentPage: helper.getPage() || 0\<close>: the page of the helper's state, and 0 when that is falsy.\<close>

definition connectPagination_init :: "nat option \<Rightarrow> search_state \<Rightarrow> (pagination_payload \<times> bool) list" where
  "connectPagination_init maxPages state =
     [(\<lparr>currentPage = (if page state = 0 then 0 else page state),
        nbHits = 0,
        nbPages = 0\<rparr>, True)]"

definition getMaxPage :: "nat option \<Rightarrow> search_results \<Rightarrow> nat" where
  "getMaxPage maxPages results =
     (case maxPages of
        Some m \<Rightarrow> min m (res_nbPages results)
      | None \<Rightarrow> res_nbPages results)"

definition connectPagination_render ::
  "nat option \<Rightarrow> search_state \<times> search_results \<Rightarrow> error + (pagination_payload \<times> bool) list" where
  "connectPagination_render maxPages context =
     (case context of (state, results) \<Rightarrow>
        Inr [(\<lparr>currentPage = page state,
                nbHits = res_nbHits results,
                nbPages = getMaxPage maxPages results\<rparr>, False)])"

section \<open>The breadcrumb connector\<close>

record breadcrumb_item =
  item_name :: string
  item_value :: string

text \<open>
  \<^verbatim>\<open>prepareItems(obj)\<close> is \<^verbatim>\<open>obj.data.reduce(..., [])\<close>: \<open>prepareItems_reduce\<close>
  is the reduction over the array, with the accumulator \<open>result\<close>. Calling
  \<^verbatim>\<open>reduce\<close> on a \<^verbatim>\<open>data\<close> that is no array throws; the recursive call is
  guarded by \<^verbatim>\<open>Array.isArray(currentItem.data)\<close>.
\<close>

function (sequential) prepareItems :: "facet_value \<Rightarrow> error + breadcrumb_item list"
  and prepareItems_reduce :: "facet_value list \<Rightarrow> breadcrumb_item list \<Rightarrow> error + breadcrumb_item list"
  where
    "prepareItems obj =
       (case fv_data obj of
          None \<Rightarrow> Inl TypeError
        | Some values \<Rightarrow> prepareItems_reduce values [])"
  | "prepareItems_reduce [] result = Inr result"
  | "prepareItems_reduce (currentItem # rest) result =
       (if fv_isRefined currentItem then
          (let result = result @ [\<lparr>item_name = fv_name currentItem, item_value = fv_path currentItem\<rparr>]
           in if fv_data currentItem \<noteq> None then
                (case prepareItems currentItem of
                   Inl e \<Rightarrow> Inl e
                 | Inr children \<Rightarrow> prepareItems_reduce rest (result @ children))
              else prepareItems_reduce rest result)
        else prepareItems_reduce rest result)"
  by pat_completeness auto

termination
  apply (relation "measure (case_sum size (\<lambda>p. size_list size (fst p)))")
  subgoal by simp
  subgoal for obj "values" by (cases obj) simp
  subgoal by simp
  subgoal by simp
  subgoal by simp
  subgoal by simp
  done

text \<open>
  The flattening in the words of the specification: of the children of a node, in
  their order, a refined child gives its own item followed by the flattening of its
  nested children, and a child that is not refined gives nothing.
\<close>

function (sequential) flatten :: "facet_value list \<Rightarrow> breadcrumb_item list" where
  "flatten [] = []"
| "flatten (child # siblings) =
     (if fv_isRefined child
        then \<lparr>item_name = fv_name child, item_value = fv_path child\<rparr>
               # (case fv_data child of None \<Rightarrow> [] | Some nested \<Rightarrow> flatten nested)
        else [])
     @ flatten siblings"
  by pat_completeness auto

termination
  apply (relation "measure (size_list size)")
  subgoal by simp
  subgoal for child siblings nested by (cases child) simp
  subgoal by simp
  done

record breadcrumb_payload =
  canRefine :: bool
  items :: "breadcrumb_item list"

definition connectBreadcrumb_init :: "(breadcrumb_payload \<times> bool) list" where
  "connectBreadcrumb_init = [(\<lparr>canRefine = False, items = []\<rparr>, True)]"

text \<open>
  \<^verbatim>\<open>render({ instantSearchInstance, results, state })\<close>. Both throws, the
  \<^verbatim>\<open>new Error(usage)\<close> and the one of \<open>prepareItems\<close>, come before the call of
  the render callback: a result \<open>Inl\<close> is a run without any call of it.
\<close>

definition connectBreadcrumb_render ::
  "search_state \<times> search_results \<Rightarrow> error + (breadcrumb_payload \<times> bool) list" where
  "connectBreadcrumb_render context =
     (case context of (state, results) \<Rightarrow>
        (case hierarchicalFacets state of
           None \<Rightarrow> Inl UsageError
         | Some [] \<Rightarrow> Inl UsageError
         | Some (facet # _) \<Rightarrow>
             let facetName = hf_name facet;
                 facetsValues = res_getFacetValues results facetName
             in case prepareItems facetsValues of
                  Inl e \<Rightarrow> Inl e
                | Inr items' \<Rightarrow> Inr [(\<lparr>canRefine = (length items' > 0), items = items'\<rparr>, False)]))"

section \<open>The lifecycle of a connector\<close>

text \<open>
  Modelled from the spec: the lifecycle that the search instance drives, which is
  not part of the connectors' sources. \<^verbatim>\<open>init\<close> runs exactly once, before the first
  search completes; \<^verbatim>\<open>render\<close> runs once per completed search thereafter. The
  result is the sequence of the calls of the render callback, and the error that
  ended the run if a \<^verbatim>\<open>render\<close> threw.
\<close>

fun run_renders :: "('s \<Rightarrow> error + 'c list) \<Rightarrow> 's list \<Rightarrow> 'c list \<times> error option" where
  "run_renders render [] = ([], None)"
| "run_renders render (search # searches) =
     (case render search of
        Inl e \<Rightarrow> ([], Some e)
      | Inr calls \<Rightarrow>
          (case run_renders render searches of (later, err) \<Rightarrow> (calls @ later, err)))"

text \<open>
  Modelled from the spec: one run of a connector, \<^verbatim>\<open>init\<close> first and then the
  \<^verbatim>\<open>render\<close> of each completed search.
\<close>

definition lifecycle :: "'c list \<Rightarrow> ('s \<Rightarrow> error + 'c list) \<Rightarrow> 's list \<Rightarrow> 'c list \<times> error option" where
  "lifecycle init_calls render searches =
     (case run_renders render searches of (later, err) \<Rightarrow> (init_calls @ later, err))"

section \<open>Example inputs\<close>

text \<open>A state whose only numeric refinements are those given, on the attribute \<open>price\<close>.\<close>

definition price_state :: "numeric_refinements \<Rightarrow> search_state" where
  "price_state refs =
     \<lparr>numericRefinements = (\<lambda>_. Map.empty)(''price'' := refs), page = 0, hierarchicalFacets = None\<rparr>"

definition option_20_30 :: num_option where
  "option_20_30 = \<lparr>opt_name = ''20 - 30'', opt_start = Some 20, opt_end = Some 30\<rparr>"

definition option_5 :: num_option where
  "option_5 = \<lparr>opt_name = ''5'', opt_start = Some 5, opt_end = Some 5\<rparr>"

definition option_50_10 :: num_option where
  "option_50_10 = \<lparr>opt_name = ''50 - 10'', opt_start = Some 50, opt_end = Some 10\<rparr>"

definition option_all :: num_option where
  "option_all = \<lparr>opt_name = ''All'', opt_start = None, opt_end = None\<rparr>"

definition option_upto_30 :: num_option where
  "option_upto_30 = \<lparr>opt_name = ''up to 30'', opt_start = None, opt_end = Some 30\<rparr>"

text \<open>
  A root with a refined child, which has a refined grandchild, and a child that is
  not refined, which has a refined child of its own.
\<close>

definition example_tree :: facet_value where
  "example_tree =
     FacetValue ''categories'' [] True (Some
       [FacetValue ''Cameras'' ''Cameras'' True (Some
          [FacetValue ''Digital'' ''Cameras > Digital'' True None]),
        FacetValue ''Phones'' ''Phones'' False (Some
          [FacetValue ''Mobile'' ''Phones > Mobile'' True None])])"

text \<open>
  The root of a hierarchical facet that has no values: its \<^verbatim>\<open>data\<close> is
  \<^verbatim>\<open>null\<close>, no array. It has no child, so no refined child.
\<close>

definition root_without_values :: facet_value where
  "root_without_values = FacetValue ''categories'' [] True None"

text \<open>A state with the hierarchical facet \<open>categories\<close> configured.\<close>

definition categories_state :: search_state where
  "categories_state =
     \<lparr>numericRefinements = (\<lambda>_. Map.empty), page = 0,
      hierarchicalFacets = Some [\<lparr>hf_name = ''categories'', hf_attributes = [''categories''],
                                   hf_separator = '' > '', hf_rootPath = None\<rparr>]\<rparr>"

section \<open>The state methods\<close>

lemma hasNumericRefinement_iff:
  "hasNumericRefinement refs operator v \<longleftrightarrow> (\<exists>s. refs operator = Some s \<and> v \<in> s)"
  by (auto simp: hasNumericRefinement_def split: option.splits)

lemma has_empty [simp]: "\<not> hasNumericRefinement Map.empty operator v"
  by (simp add: hasNumericRefinement_iff)

lemma get_clear [simp]:
  "getNumericRefinements (clearRefinements state a) b
     = (if b = a then Map.empty else getNumericRefinements state b)"
  by (simp add: getNumericRefinements_def clearRefinements_def)

lemma has_remove:
  "hasNumericRefinement (getNumericRefinements (removeNumericRefinement state a operator v) a) operator' v'
     \<longleftrightarrow> hasNumericRefinement (getNumericRefinements state a) operator' v' \<and> (operator', v') \<noteq> (operator, v)"
  by (auto simp: hasNumericRefinement_iff getNumericRefinements_def removeNumericRefinement_def
        Let_def split: option.splits)

lemma has_add:
  "hasNumericRefinement (getNumericRefinements (addNumericRefinement state a operator v) a) operator' v'
     \<longleftrightarrow> hasNumericRefinement (getNumericRefinements state a) operator' v' \<or> (operator', v') = (operator, v)"
  by (auto simp: hasNumericRefinement_iff getNumericRefinements_def addNumericRefinement_def
        Let_def split: option.splits)

lemma numericRefinements_update_eq_iff:
  "state\<lparr>numericRefinements := f\<rparr> = state \<longleftrightarrow> f = numericRefinements state"
  by (cases state) auto

lemma fun_upd_same_iff: "f(a := x) = f \<longleftrightarrow> f a = x"
  by (auto simp: fun_eq_iff)

text \<open>
  The hypothesis of the theorems on \<open>refine\<close> is that the selected name resolves to
  the option. In a catalog with unique names, the name of each of its options does.
\<close>

lemma find_name_member:
  "distinct (map opt_name options) \<Longrightarrow> option \<in> set options
     \<Longrightarrow> List.find (\<lambda>x. opt_name x = opt_name option) options = Some option"
  by (induction options) auto

section \<open>Toggling a point option twice\<close>

lemma refine_twice_point_present:
  assumes "List.find (\<lambda>option. opt_name option = facetValue) options = Some option"
    and "opt_start option = Some v" and "opt_end option = Some v"
    and "hasNumericRefinement (getNumericRefinements state attributeName) Eq v"
  shows "refine_twice state attributeName options facetValue
           = Inr (state\<lparr>numericRefinements :=
                    (numericRefinements state)(attributeName := [Eq \<mapsto> {v}])\<rparr>)"
  using assms
  by (simp add: refine_twice_def refine_def Let_def isRefined_def has_remove)
     (auto simp: clearRefinements_def addNumericRefinement_def removeNumericRefinement_def
        getNumericRefinements_def hasNumericRefinement_iff Let_def)

lemma refine_twice_point_absent:
  assumes "List.find (\<lambda>option. opt_name option = facetValue) options = Some option"
    and "opt_start option = Some v" and "opt_end option = Some v"
    and "\<not> hasNumericRefinement (getNumericRefinements state attributeName) Eq v"
  shows "refine_twice state attributeName options facetValue
           = Inr (state\<lparr>numericRefinements :=
                    (numericRefinements state)(attributeName := Map.empty)\<rparr>)"
  using assms
  by (simp add: refine_twice_def refine_def Let_def isRefined_def has_add)
     (auto simp: clearRefinements_def addNumericRefinement_def removeNumericRefinement_def
        getNumericRefinements_def hasNumericRefinement_iff Let_def)

text \<open>
  C1, as stated, fails. From the state whose only refinement on \<open>price\<close> is
  \<open>>= 10\<close>, toggling the point option \<open>5\<close> twice ends in the state without any
  refinement on \<open>price\<close>: the first call clears \<open>>= 10\<close> before it adds \<open>= 5\<close>,
  the second removes \<open>= 5\<close>.
\<close>

theorem refine_twice_point_not_involution:
  "refine_twice (price_state [Ge \<mapsto> {10}]) ''price'' [option_all, option_5] ''5''
     = Inr (price_state Map.empty)
   \<and> refine_twice (price_state [Ge \<mapsto> {10}]) ''price'' [option_all, option_5] ''5''
     \<noteq> Inr (price_state [Ge \<mapsto> {10}])"
proof -
  have find: "List.find (\<lambda>option. opt_name option = ''5'') [option_all, option_5] = Some option_5"
    by (simp add: option_all_def option_5_def)
  have absent: "\<not> hasNumericRefinement (getNumericRefinements (price_state [Ge \<mapsto> {10}]) ''price'') Eq 5"
    by (simp add: hasNumericRefinement_iff getNumericRefinements_def price_state_def)
  have twice: "refine_twice (price_state [Ge \<mapsto> {10}]) ''price'' [option_all, option_5] ''5''
                 = Inr (price_state Map.empty)"
    using refine_twice_point_absent [OF find _ _ absent]
    by (simp add: option_5_def price_state_def)
  have "numericRefinements (price_state Map.empty) ''price'' Ge
          \<noteq> numericRefinements (price_state [Ge \<mapsto> {10}]) ''price'' Ge"
    by (simp add: price_state_def)
  then have "price_state Map.empty \<noteq> price_state [Ge \<mapsto> {10}]"
    by auto
  with twice show ?thesis by simp
qed

text \<open>
  C1, amended. For an option with equal bounds \<open>v\<close> that the name resolves to,
  toggling twice gives back the base state exactly when the base state's numeric
  refinements for the attribute are empty or are the single refinement \<open>= v\<close>.
\<close>

theorem refine_twice_point_involution_iff:
  assumes "List.find (\<lambda>option. opt_name option = facetValue) options = Some option"
    and "opt_start option = Some v" and "opt_end option = Some v"
  shows "refine_twice state attributeName options facetValue = Inr state
     \<longleftrightarrow> getNumericRefinements state attributeName = Map.empty
         \<or> getNumericRefinements state attributeName = [Eq \<mapsto> {v}]"
proof (cases "hasNumericRefinement (getNumericRefinements state attributeName) Eq v")
  case True
  then have "getNumericRefinements state attributeName \<noteq> Map.empty"
    by (auto simp: hasNumericRefinement_iff)
  with True assms show ?thesis
    by (auto simp: refine_twice_point_present numericRefinements_update_eq_iff
          fun_upd_same_iff getNumericRefinements_def)
next
  case False
  then have "getNumericRefinements state attributeName \<noteq> [Eq \<mapsto> {v}]"
    by (auto simp: hasNumericRefinement_iff)
  with False assms show ?thesis
    by (auto simp: refine_twice_point_absent numericRefinements_update_eq_iff
          fun_upd_same_iff getNumericRefinements_def)
qed

theorem refine_twice_point_involution_iff_witness:
  "refine_twice (price_state Map.empty) ''price'' [option_all, option_5] ''5''
     = Inr (price_state Map.empty)
   \<and> refine_twice (price_state [Eq \<mapsto> {5}]) ''price'' [option_all, option_5] ''5''
     = Inr (price_state [Eq \<mapsto> {5}])"
proof -
  have find: "List.find (\<lambda>option. opt_name option = ''5'') [option_all, option_5] = Some option_5"
    by (simp add: option_all_def option_5_def)
  have s: "opt_start option_5 = Some 5" and e: "opt_end option_5 = Some 5"
    by (simp_all add: option_5_def)
  have "getNumericRefinements (price_state Map.empty) ''price'' = Map.empty"
    by (simp add: getNumericRefinements_def price_state_def)
  moreover have "getNumericRefinements (price_state [Eq \<mapsto> {5}]) ''price'' = [Eq \<mapsto> {5}]"
    by (simp add: getNumericRefinements_def price_state_def)
  ultimately show ?thesis
    using refine_twice_point_involution_iff [OF find s e, of "price_state Map.empty" "''price''"]
      refine_twice_point_involution_iff [OF find s e, of "price_state [Eq \<mapsto> {5}]" "''price''"]
    by simp
qed

section \<open>Selecting an option that is not refined\<close>

text \<open>
  What \<open>refine\<close> leaves when the option that the name resolves to is not refined
  on the incoming state (and its bounds are in order): the refinements for the
  attribute are exactly those constraints of the option that the incoming state did
  not hold. Nothing of the earlier refinements is left, and a constraint of the
  option that the incoming state held is not in the result either. From the state
  whose only refinement is \<open>>= 10\<close>, the option \<open>{start: 20, end: 30}\<close> gives
  \<open>>= 20\<close> and \<open><= 30\<close> and nothing else.
\<close>

theorem refine_unrefined_option_clears:
  assumes "List.find (\<lambda>option. opt_name option = facetValue) options = Some option"
    and "\<not> isRefined state attributeName option"
    and "\<not> (\<exists>s e. opt_start option = Some s \<and> opt_end option = Some e \<and> s > e)"
  shows "\<exists>state'. refine state attributeName options facetValue = Inr state'
      \<and> (\<forall>operator v.
            hasNumericRefinement (getNumericRefinements state' attributeName) operator v
              \<longleftrightarrow> (operator, v) \<in> option_constraints option
                  \<and> \<not> hasNumericRefinement (getNumericRefinements state attributeName) operator v)"
proof (cases "opt_start option")
  case None
  note start = None
  show ?thesis
  proof (cases "opt_end option")
    case None
    with start assms show ?thesis
      by (simp add: refine_def Let_def option_constraints_def)
  next
    case (Some e)
    with start assms show ?thesis
      by (auto simp add: refine_def Let_def isRefined_def option_constraints_def has_add has_remove)
  qed
next
  case (Some s)
  note start = Some
  show ?thesis
  proof (cases "opt_end option")
    case None
    with start assms show ?thesis
      by (auto simp add: refine_def Let_def isRefined_def option_constraints_def has_add has_remove)
  next
    case (Some e)
    with start assms show ?thesis
      by (auto simp add: refine_def Let_def isRefined_def option_constraints_def has_add has_remove)
  qed
qed

theorem refine_unrefined_option_clears_witness:
  "\<not> isRefined (price_state [Ge \<mapsto> {10}]) ''price'' option_20_30
   \<and> refine (price_state [Ge \<mapsto> {10}]) ''price'' [option_all, option_20_30] ''20 - 30''
       = Inr (price_state [Ge \<mapsto> {20}, Le \<mapsto> {30}])
   \<and> hasNumericRefinement (getNumericRefinements (price_state [Ge \<mapsto> {20}, Le \<mapsto> {30}]) ''price'') Ge 20
   \<and> hasNumericRefinement (getNumericRefinements (price_state [Ge \<mapsto> {20}, Le \<mapsto> {30}]) ''price'') Le 30
   \<and> \<not> hasNumericRefinement (getNumericRefinements (price_state [Ge \<mapsto> {20}, Le \<mapsto> {30}]) ''price'') Ge 10"
proof -
  have find: "List.find (\<lambda>option. opt_name option = ''20 - 30'') [option_all, option_20_30]
                = Some option_20_30"
    by (simp add: option_all_def option_20_30_def)
  have unrefined: "\<not> isRefined (price_state [Ge \<mapsto> {10}]) ''price'' option_20_30"
    by (simp add: isRefined_def option_20_30_def hasNumericRefinement_iff
          getNumericRefinements_def price_state_def)
  have ordered: "\<not> (\<exists>s e. opt_start option_20_30 = Some s \<and> opt_end option_20_30 = Some e \<and> s > e)"
    by (simp add: option_20_30_def)
  have result: "refine (price_state [Ge \<mapsto> {10}]) ''price'' [option_all, option_20_30] ''20 - 30''
                  = Inr (price_state [Ge \<mapsto> {20}, Le \<mapsto> {30}])"
    unfolding refine_def find
    by (simp add: Let_def unrefined)
       (simp add: option_20_30_def hasNumericRefinement_iff getNumericRefinements_def
          price_state_def clearRefinements_def addNumericRefinement_def Let_def)
  from refine_unrefined_option_clears [OF find unrefined ordered] result unrefined
  show ?thesis
    by (simp add: option_constraints_def option_20_30_def hasNumericRefinement_iff
          getNumericRefinements_def price_state_def)
qed

text \<open>
  C2. The claim is that selecting an option that is not refined clears the
  refinements of the attribute and then applies the option's constraints, so that the
  result holds exactly these. The code misses it when the incoming state holds the
  option's end bound. Selecting \<open>up to 30\<close> from the state without refinements
  gives \<open><= 30\<close>; there the option \<open>{start: 20, end: 30}\<close> is not refined, and
  selecting it gives \<open>>= 20\<close> alone, not \<open>>= 20\<close> and \<open><= 30\<close>. The toggle
  of the end bound tests \<open>currentRefinements\<close>, read before the clearing, finds
  \<open><= 30\<close> there and calls \<^verbatim>\<open>removeNumericRefinement\<close> on the cleared state.
\<close>

theorem refine_unrefined_two_bounds_drops_end:
  "refine (price_state Map.empty) ''price'' [option_all, option_upto_30, option_20_30] ''up to 30''
     = Inr (price_state [Le \<mapsto> {30}])
   \<and> \<not> isRefined (price_state [Le \<mapsto> {30}]) ''price'' option_20_30
   \<and> refine (price_state [Le \<mapsto> {30}]) ''price'' [option_all, option_upto_30, option_20_30] ''20 - 30''
     = Inr (price_state [Ge \<mapsto> {20}])
   \<and> \<not> hasNumericRefinement (getNumericRefinements (price_state [Ge \<mapsto> {20}]) ''price'') Le 30
   \<and> price_state [Ge \<mapsto> {20}] \<noteq> price_state [Ge \<mapsto> {20}, Le \<mapsto> {30}]"
proof -
  have find_upto: "List.find (\<lambda>option. opt_name option = ''up to 30'')
                     [option_all, option_upto_30, option_20_30] = Some option_upto_30"
    by (simp add: option_all_def option_upto_30_def)
  have find_range: "List.find (\<lambda>option. opt_name option = ''20 - 30'')
                     [option_all, option_upto_30, option_20_30] = Some option_20_30"
    by (simp add: option_all_def option_upto_30_def option_20_30_def)
  have first: "refine (price_state Map.empty) ''price'' [option_all, option_upto_30, option_20_30] ''up to 30''
                 = Inr (price_state [Le \<mapsto> {30}])"
    unfolding refine_def find_upto
    by (simp add: Let_def isRefined_def option_upto_30_def)
       (simp add: hasNumericRefinement_iff getNumericRefinements_def price_state_def
          clearRefinements_def addNumericRefinement_def Let_def)
  have unrefined: "\<not> isRefined (price_state [Le \<mapsto> {30}]) ''price'' option_20_30"
    by (simp add: isRefined_def option_20_30_def hasNumericRefinement_iff
          getNumericRefinements_def price_state_def)
  have second: "refine (price_state [Le \<mapsto> {30}]) ''price'' [option_all, option_upto_30, option_20_30] ''20 - 30''
                  = Inr (price_state [Ge \<mapsto> {20}])"
    unfolding refine_def find_range
    by (simp add: Let_def unrefined)
       (simp add: option_20_30_def hasNumericRefinement_iff getNumericRefinements_def
          price_state_def clearRefinements_def addNumericRefinement_def
          removeNumericRefinement_def Let_def)
  have absent: "\<not> hasNumericRefinement (getNumericRefinements (price_state [Ge \<mapsto> {20}]) ''price'') Le 30"
    by (simp add: hasNumericRefinement_iff getNumericRefinements_def price_state_def)
  have "numericRefinements (price_state [Ge \<mapsto> {20}]) ''price'' Le
          \<noteq> numericRefinements (price_state [Ge \<mapsto> {20}, Le \<mapsto> {30}]) ''price'' Le"
    by (simp add: price_state_def)
  then have differ: "price_state [Ge \<mapsto> {20}] \<noteq> price_state [Ge \<mapsto> {20}, Le \<mapsto> {30}]"
    by auto
  from first unrefined second absent differ show ?thesis by simp
qed

section \<open>Options with two different bounds\<close>

text \<open>
  C3. For an option with both bounds defined and \<open>start < end\<close>, one call of
  \<open>refine\<close> toggles both refinements, each against its own presence in the
  incoming state: \<open>>= start\<close> is in the result exactly when it was absent before,
  and \<open><= end\<close> is in the result exactly when it was absent before.
\<close>

theorem refine_two_bounds_toggles_both:
  assumes "List.find (\<lambda>option. opt_name option = facetValue) options = Some option"
    and "opt_start option = Some s" and "opt_end option = Some e" and "s < e"
  shows "\<exists>state'. refine state attributeName options facetValue = Inr state'
      \<and> (hasNumericRefinement (getNumericRefinements state' attributeName) Ge s
           \<longleftrightarrow> \<not> hasNumericRefinement (getNumericRefinements state attributeName) Ge s)
      \<and> (hasNumericRefinement (getNumericRefinements state' attributeName) Le e
           \<longleftrightarrow> \<not> hasNumericRefinement (getNumericRefinements state attributeName) Le e)"
  using assms
  by (simp add: refine_def Let_def isRefined_def has_remove has_add)

theorem refine_two_bounds_toggles_both_witness:
  "refine (price_state [Ge \<mapsto> {20}]) ''price'' [option_all, option_20_30] ''20 - 30''
     = Inr (price_state [Le \<mapsto> {30}])
   \<and> hasNumericRefinement (getNumericRefinements (price_state [Ge \<mapsto> {20}]) ''price'') Ge 20
   \<and> \<not> hasNumericRefinement (getNumericRefinements (price_state [Ge \<mapsto> {20}]) ''price'') Le 30
   \<and> \<not> hasNumericRefinement (getNumericRefinements (price_state [Le \<mapsto> {30}]) ''price'') Ge 20
   \<and> hasNumericRefinement (getNumericRefinements (price_state [Le \<mapsto> {30}]) ''price'') Le 30"
proof -
  have find: "List.find (\<lambda>option. opt_name option = ''20 - 30'') [option_all, option_20_30]
                = Some option_20_30"
    by (simp add: option_all_def option_20_30_def)
  have s: "opt_start option_20_30 = Some 20" and e: "opt_end option_20_30 = Some 30"
    by (simp_all add: option_20_30_def)
  have before: "hasNumericRefinement (getNumericRefinements (price_state [Ge \<mapsto> {20}]) ''price'') Ge 20"
    "\<not> hasNumericRefinement (getNumericRefinements (price_state [Ge \<mapsto> {20}]) ''price'') Le 30"
    by (simp_all add: hasNumericRefinement_iff getNumericRefinements_def price_state_def)
  have result: "refine (price_state [Ge \<mapsto> {20}]) ''price'' [option_all, option_20_30] ''20 - 30''
                  = Inr (price_state [Le \<mapsto> {30}])"
    unfolding refine_def find
    by (simp add: Let_def isRefined_def s e before)
       (simp add: hasNumericRefinement_iff getNumericRefinements_def price_state_def
          removeNumericRefinement_def addNumericRefinement_def Let_def)
  from refine_two_bounds_toggles_both [OF find s e, of "price_state [Ge \<mapsto> {20}]" "''price''"]
    result before
  show ?thesis by simp
qed

text \<open>
  C10. On an option with both bounds defined and different, \<open>isRefined\<close> is true
  exactly when the state holds the refinement \<open>>= start\<close> for the attribute; the end
  bound is not consulted: replacing it by any other number different from the start
  leaves the result as it is.
\<close>

theorem isRefined_two_bounds_reads_start_only:
  assumes "opt_start option = Some s" and "opt_end option = Some e" and "s \<noteq> e"
  shows "isRefined state attributeName option
           = hasNumericRefinement (getNumericRefinements state attributeName) Ge s
         \<and> (\<forall>e'. e' \<noteq> s \<longrightarrow>
              isRefined state attributeName (option\<lparr>opt_end := Some e'\<rparr>)
                = isRefined state attributeName option)"
  using assms by (simp add: isRefined_def)

theorem isRefined_two_bounds_reads_start_only_witness:
  "isRefined (price_state [Ge \<mapsto> {20}]) ''price'' option_20_30
   \<and> isRefined (price_state [Ge \<mapsto> {20}]) ''price'' (option_20_30\<lparr>opt_end := Some 99\<rparr>)
   \<and> \<not> isRefined (price_state [Le \<mapsto> {30}]) ''price'' option_20_30"
proof -
  have s: "opt_start option_20_30 = Some 20" and e: "opt_end option_20_30 = Some 30"
    by (simp_all add: option_20_30_def)
  have ne: "(20::int) \<noteq> 30" by simp
  have "hasNumericRefinement (getNumericRefinements (price_state [Ge \<mapsto> {20}]) ''price'') Ge 20"
    "\<not> hasNumericRefinement (getNumericRefinements (price_state [Le \<mapsto> {30}]) ''price'') Ge 20"
    by (simp_all add: hasNumericRefinement_iff getNumericRefinements_def price_state_def)
  with isRefined_two_bounds_reads_start_only [OF s e ne, of "price_state [Ge \<mapsto> {20}]" "''price''"]
    isRefined_two_bounds_reads_start_only [OF s e ne, of "price_state [Le \<mapsto> {30}]" "''price''"]
  show ?thesis by simp
qed

section \<open>Errors of \<open>refine\<close>\<close>

text \<open>
  C4. When the name resolves to an option with both bounds defined and
  \<open>start > end\<close>, \<open>refine\<close> fails with the error of the bounds check, whatever the
  state: no state is returned, so none with the bounds swapped.
\<close>

theorem refine_start_above_end_fails:
  assumes "List.find (\<lambda>option. opt_name option = facetValue) options = Some option"
    and "opt_start option = Some s" and "opt_end option = Some e" and "s > e"
  shows "refine state attributeName options facetValue = Inl OptionError"
  using assms by (simp add: refine_def Let_def)

theorem refine_start_above_end_fails_witness:
  "refine (price_state [Ge \<mapsto> {10}]) ''price'' [option_all, option_50_10] ''50 - 10''
     = Inl OptionError"
proof -
  have find: "List.find (\<lambda>option. opt_name option = ''50 - 10'') [option_all, option_50_10]
                = Some option_50_10"
    by (simp add: option_all_def option_50_10_def)
  have s: "opt_start option_50_10 = Some 50" and e: "opt_end option_50_10 = Some 10"
    by (simp_all add: option_50_10_def)
  have gt: "(50::int) > 10" by simp
  show ?thesis by (rule refine_start_above_end_fails [OF find s e gt])
qed

text \<open>
  C5. When no option of the catalog has the selected name, \<open>refine\<close> fails: the
  lookup gives \<^verbatim>\<open>undefined\<close> and reading its \<^verbatim>\<open>start\<close> throws. No state is
  returned, and the state passed in is a value that the call cannot change.
\<close>

theorem refine_unknown_option_fails:
  assumes "facetValue \<notin> set (map opt_name options)"
  shows "refine state attributeName options facetValue = Inl TypeError"
proof -
  have "List.find (\<lambda>option. opt_name option = facetValue) options = None"
    using assms by (auto simp: find_None_iff)
  then show ?thesis by (simp add: refine_def)
qed

theorem refine_unknown_option_fails_witness:
  "refine (price_state [Ge \<mapsto> {10}]) ''price'' [option_all, option_20_30] ''below 5''
     = Inl TypeError"
proof -
  have "''below 5'' \<notin> set (map opt_name [option_all, option_20_30])"
    by (simp add: option_all_def option_20_30_def)
  then show ?thesis by (rule refine_unknown_option_fails)
qed

section \<open>The reset option\<close>

text \<open>
  C6. When the name resolves to the option without bounds, \<open>refine\<close> returns a
  state without any numeric refinement for the attribute, whatever refinements the
  incoming state held.
\<close>

theorem refine_reset_option_clears_all:
  assumes "List.find (\<lambda>option. opt_name option = facetValue) options = Some option"
    and "opt_start option = None" and "opt_end option = None"
  shows "\<exists>state'. refine state attributeName options facetValue = Inr state'
      \<and> getNumericRefinements state' attributeName = Map.empty
      \<and> object_keys (getNumericRefinements state' attributeName) = []
      \<and> (\<forall>operator v. \<not> hasNumericRefinement (getNumericRefinements state' attributeName) operator v)"
  using assms by (simp add: refine_def Let_def object_keys_def)

theorem refine_reset_option_clears_all_witness:
  "refine (price_state [Eq \<mapsto> {5}, Ge \<mapsto> {10, 20}, Le \<mapsto> {30}]) ''price''
       [option_all, option_20_30] ''All''
     = Inr (price_state Map.empty)
   \<and> getNumericRefinements (price_state Map.empty) ''price'' = Map.empty"
proof -
  have find: "List.find (\<lambda>option. opt_name option = ''All'') [option_all, option_20_30]
                = Some option_all"
    by (simp add: option_all_def)
  have s: "opt_start option_all = None" and e: "opt_end option_all = None"
    by (simp_all add: option_all_def)
  have "refine (price_state [Eq \<mapsto> {5}, Ge \<mapsto> {10, 20}, Le \<mapsto> {30}]) ''price''
            [option_all, option_20_30] ''All''
          = Inr (price_state Map.empty)"
    unfolding refine_def find
    by (simp add: s e) (simp add: clearRefinements_def price_state_def)
  with refine_reset_option_clears_all [OF find s e,
      of "price_state [Eq \<mapsto> {5}, Ge \<mapsto> {10, 20}, Le \<mapsto> {30}]" "''price''"]
  show ?thesis by simp
qed

section \<open>Flattening the refined path\<close>

lemma prepareItems_flatten:
  "\<forall>children. fv_data obj = Some children \<longrightarrow> prepareItems obj = Inr (flatten children)"
  "prepareItems_reduce children result = Inr (result @ flatten children)"
proof (induction obj and children result rule: prepareItems_prepareItems_reduce.induct)
  case (1 obj)
  then show ?case by auto
next
  case (2 result)
  then show ?case by simp
next
  case (3 currentItem rest result)
  then show ?case by (auto simp: Let_def split: sum.splits option.splits)
qed

lemma prepareItems_no_array: "fv_data obj = None \<Longrightarrow> prepareItems obj = Inl TypeError"
  by simp

lemma flatten_unrefined: "list_all (\<lambda>child. \<not> fv_isRefined child) children \<Longrightarrow> flatten children = []"
  by (induction children) auto

text \<open>
  On a node that holds an array of children, \<open>prepareItems\<close> returns the
  depth-first flattening of the refined branches: in the order of the children, a
  refined child gives its item, followed at once by the flattening of its own
  children, and a child that is not refined gives nothing, whatever is below it. When
  no child is refined the result is the empty sequence.
\<close>

theorem prepareItems_refined_path:
  assumes "fv_data obj = Some children"
  shows "prepareItems obj = Inr (flatten children)
       \<and> (list_all (\<lambda>child. \<not> fv_isRefined child) children \<longrightarrow> prepareItems obj = Inr [])"
  using assms prepareItems_flatten(1) [of obj] by (simp add: flatten_unrefined)

theorem prepareItems_refined_path_witness:
  "prepareItems example_tree
     = Inr [\<lparr>item_name = ''Cameras'', item_value = ''Cameras''\<rparr>,
            \<lparr>item_name = ''Digital'', item_value = ''Cameras > Digital''\<rparr>]
   \<and> prepareItems (FacetValue ''categories'' [] True (Some
         [FacetValue ''Phones'' ''Phones'' False (Some
            [FacetValue ''Mobile'' ''Phones > Mobile'' True None])]))
     = Inr []"
proof -
  have "fv_data example_tree = Some
          [FacetValue ''Cameras'' ''Cameras'' True (Some
             [FacetValue ''Digital'' ''Cameras > Digital'' True None]),
           FacetValue ''Phones'' ''Phones'' False (Some
             [FacetValue ''Mobile'' ''Phones > Mobile'' True None])]"
    by (simp add: example_tree_def)
  from prepareItems_refined_path [OF this]
  have first: "prepareItems example_tree
     = Inr [\<lparr>item_name = ''Cameras'', item_value = ''Cameras''\<rparr>,
            \<lparr>item_name = ''Digital'', item_value = ''Cameras > Digital''\<rparr>]"
    by simp
  have "fv_data (FacetValue ''categories'' [] True (Some
         [FacetValue ''Phones'' ''Phones'' False (Some
            [FacetValue ''Mobile'' ''Phones > Mobile'' True None])]))
        = Some [FacetValue ''Phones'' ''Phones'' False (Some
            [FacetValue ''Mobile'' ''Phones > Mobile'' True None])]"
    by simp
  from prepareItems_refined_path [OF this]
  have "prepareItems (FacetValue ''categories'' [] True (Some
         [FacetValue ''Phones'' ''Phones'' False (Some
            [FacetValue ''Mobile'' ''Phones > Mobile'' True None])]))
     = Inr []"
    by simp
  with first show ?thesis by simp
qed

text \<open>
  C7. The claim is that flattening is the depth-first traversal of the refined
  branches for every facet tree, and that a tree with no refined top-level child
  gives the empty sequence, not an error. On arrays of children the code does so
  (above). It misses the root whose \<^verbatim>\<open>data\<close> is no array: that tree has no
  refined top-level child, yet \<^verbatim>\<open>obj.data.reduce\<close> throws, and the breadcrumb's
  \<open>render\<close> fails with it before it calls the render callback. The recursive call
  is guarded by \<^verbatim>\<open>Array.isArray(currentItem.data)\<close>; the call on the root is
  not.
\<close>

theorem prepareItems_root_without_array_throws:
  "fv_data root_without_values = None
   \<and> prepareItems root_without_values = Inl TypeError
   \<and> prepareItems root_without_values \<noteq> Inr []
   \<and> connectBreadcrumb_render
        (categories_state,
         \<lparr>res_nbHits = 0, res_nbPages = 0, res_getFacetValues = (\<lambda>_. root_without_values)\<rparr>)
       = Inl TypeError"
  by (simp add: root_without_values_def categories_state_def connectBreadcrumb_render_def)

section \<open>The first rendering\<close>

lemma run_renders_one_call_each:
  assumes "\<And>search. \<exists>payload. render search = Inr [(payload, False)]"
  shows "map snd (fst (run_renders render searches)) = replicate (length searches) False
       \<and> snd (run_renders render searches) = None"
proof (induction searches)
  case Nil
  then show ?case by simp
next
  case (Cons search searches)
  from assms obtain payload where "render search = Inr [(payload, False)]" by blast
  with Cons show ?case by (cases "run_renders render searches") simp
qed

lemma run_renders_flags:
  assumes "\<And>search calls. render search = Inr calls \<Longrightarrow> \<exists>payload. calls = [(payload, False)]"
  shows "\<exists>n. map snd (fst (run_renders render searches)) = replicate n False"
proof (induction searches)
  case Nil
  then show ?case by simp
next
  case (Cons search searches)
  then obtain n where n: "map snd (fst (run_renders render searches)) = replicate n False"
    by blast
  show ?case
  proof (cases "render search")
    case (Inl e)
    then have "map snd (fst (run_renders render (search # searches))) = replicate 0 False"
      by simp
    then show ?thesis by blast
  next
    case (Inr calls)
    with assms obtain payload where "calls = [(payload, False)]" by blast
    with Inr n have "map snd (fst (run_renders render (search # searches))) = replicate (Suc n) False"
      by (cases "run_renders render searches") simp
    then show ?thesis by blast
  qed
qed

text \<open>
  C8. \<open>init\<close> calls the render callback exactly once, with
  \<^verbatim>\<open>isFirstRendering = true\<close>: for the pagination connector with \<open>nbHits = 0\<close> and
  \<open>nbPages = 0\<close>, for the breadcrumb connector with no items, for the numeric
  refinement list with \<open>hasNoResults\<close>. In the lifecycle of each connector this call
  is the first, and every later call, made by \<open>render\<close>, has
  \<^verbatim>\<open>isFirstRendering = false\<close>.
\<close>

theorem init_renders_once_first:
  "connectPagination_init maxPages state
     = [(\<lparr>currentPage = page state, nbHits = 0, nbPages = 0\<rparr>, True)]
   \<and> connectBreadcrumb_init = [(\<lparr>canRefine = False, items = []\<rparr>, True)]
   \<and> (\<exists>payload. connectNumericRefinementList_init attributeName options state = [(payload, True)]
         \<and> hasNoResults payload)
   \<and> map snd (fst (lifecycle (connectPagination_init maxPages state)
                      (connectPagination_render maxPages) searches))
       = True # replicate (length searches) False
   \<and> (\<exists>n. map snd (fst (lifecycle connectBreadcrumb_init connectBreadcrumb_render searches))
             = True # replicate n False)
   \<and> map snd (fst (lifecycle (connectNumericRefinementList_init attributeName options state)
                      (connectNumericRefinementList_render attributeName options) searches))
       = True # replicate (length searches) False"
proof -
  have pagination: "map snd (fst (run_renders (connectPagination_render maxPages) searches))
                      = replicate (length searches) False"
    by (rule run_renders_one_call_each [THEN conjunct1])
       (auto simp: connectPagination_render_def split: prod.splits)
  have numeric: "map snd (fst (run_renders
                      (connectNumericRefinementList_render attributeName options) searches))
                      = replicate (length searches) False"
    by (rule run_renders_one_call_each [THEN conjunct1])
       (auto simp: connectNumericRefinementList_render_def split: prod.splits)
  have "\<exists>n. map snd (fst (run_renders connectBreadcrumb_render searches)) = replicate n False"
    by (rule run_renders_flags)
       (auto simp: connectBreadcrumb_render_def Let_def
          split: prod.splits option.splits list.splits sum.splits)
  then obtain n where breadcrumb:
    "map snd (fst (run_renders connectBreadcrumb_render searches)) = replicate n False"
    by blast
  have "map snd (fst (lifecycle connectBreadcrumb_init connectBreadcrumb_render searches))
          = True # replicate n False"
    using breadcrumb
    by (cases "run_renders connectBreadcrumb_render searches")
       (simp add: lifecycle_def connectBreadcrumb_init_def)
  then have "\<exists>n. map snd (fst (lifecycle connectBreadcrumb_init connectBreadcrumb_render searches))
          = True # replicate n False"
    by (rule exI)
  moreover have "map snd (fst (lifecycle (connectPagination_init maxPages state)
                      (connectPagination_render maxPages) searches))
       = True # replicate (length searches) False"
    using pagination
    by (cases "run_renders (connectPagination_render maxPages) searches")
       (simp add: lifecycle_def connectPagination_init_def)
  moreover have "map snd (fst (lifecycle (connectNumericRefinementList_init attributeName options state)
                      (connectNumericRefinementList_render attributeName options) searches))
       = True # replicate (length searches) False"
    using numeric
    by (cases "run_renders (connectNumericRefinementList_render attributeName options) searches")
       (simp add: lifecycle_def connectNumericRefinementList_init_def)
  ultimately show ?thesis
    by (simp add: connectPagination_init_def connectBreadcrumb_init_def
          connectNumericRefinementList_init_def)
qed

theorem init_renders_once_first_witness:
  "connectPagination_init (Some 20) (price_state Map.empty)
     = [(\<lparr>currentPage = 0, nbHits = 0, nbPages = 0\<rparr>, True)]
   \<and> map snd (fst (lifecycle (connectPagination_init (Some 20) (price_state Map.empty))
        (connectPagination_render (Some 20))
        [(price_state Map.empty,
          \<lparr>res_nbHits = 42, res_nbPages = 3, res_getFacetValues = (\<lambda>_. example_tree)\<rparr>),
         (price_state Map.empty,
          \<lparr>res_nbHits = 7, res_nbPages = 1, res_getFacetValues = (\<lambda>_. example_tree)\<rparr>)]))
       = [True, False, False]"
proof -
  have first_page: "page (price_state Map.empty) = 0"
    by (simp add: price_state_def)
  from init_renders_once_first [of "Some 20" "price_state Map.empty" "''price''" "[]"
      "[(price_state Map.empty,
          \<lparr>res_nbHits = 42, res_nbPages = 3, res_getFacetValues = (\<lambda>_. example_tree)\<rparr>),
         (price_state Map.empty,
          \<lparr>res_nbHits = 7, res_nbPages = 1, res_getFacetValues = (\<lambda>_. example_tree)\<rparr>)]"]
    first_page
  show ?thesis by auto
qed

section \<open>Rendering the breadcrumb without its configuration\<close>

text \<open>
  C9. When \<^verbatim>\<open>state.hierarchicalFacets\<close> is missing or is the empty list, the
  breadcrumb's \<open>render\<close> fails with the usage error and does not call the render
  callback.
\<close>

theorem connectBreadcrumb_render_unconfigured_fails:
  assumes "hierarchicalFacets state = None \<or> hierarchicalFacets state = Some []"
  shows "connectBreadcrumb_render (state, results) = Inl UsageError"
  using assms by (auto simp: connectBreadcrumb_render_def)

theorem connectBreadcrumb_render_unconfigured_fails_witness:
  "connectBreadcrumb_render
     (price_state Map.empty,
      \<lparr>res_nbHits = 42, res_nbPages = 3, res_getFacetValues = (\<lambda>_. example_tree)\<rparr>)
     = Inl UsageError
   \<and> connectBreadcrumb_render
     ((price_state Map.empty)\<lparr>hierarchicalFacets := Some []\<rparr>,
      \<lparr>res_nbHits = 42, res_nbPages = 3, res_getFacetValues = (\<lambda>_. example_tree)\<rparr>)
     = Inl UsageError"
proof -
  have missing: "hierarchicalFacets (price_state Map.empty) = None
                   \<or> hierarchicalFacets (price_state Map.empty) = Some []"
    by (simp add: price_state_def)
  have empty: "hierarchicalFacets ((price_state Map.empty)\<lparr>hierarchicalFacets := Some []\<rparr>) = None
                 \<or> hierarchicalFacets ((price_state Map.empty)\<lparr>hierarchicalFacets := Some []\<rparr>) = Some []"
    by simp
  show ?thesis
    using connectBreadcrumb_render_unconfigured_fails [OF missing]
      connectBreadcrumb_render_unconfigured_fails [OF empty]
    by simp
qed

end
